theory Spec2Isabelle
  imports Main
begin

section \<open>Data model (types of the frontend)\<close>

text \<open>
  The interfaces \<^verbatim>\<open>Message\<close>, \<^verbatim>\<open>ChatRoom\<close> and \<^verbatim>\<open>User\<close>. The field \<^verbatim>\<open>id\<close> is
  prefixed, since \<open>id\<close> is a constant of HOL; optional fields are options.
\<close>

record message =
  msg_id :: string
  room_id :: string
  sender_id :: string
  receiver_id :: string
  content :: string
  timestamp :: string
  read :: bool

record last_message =
  lm_content :: string
  lm_sender_id :: string
  lm_timestamp :: string

record chat_room =
  room_ident :: string
  job_id :: string
  student_id :: "string option"
  recruiter_id :: "string option"
  job_title :: string
  company_name :: string
  participants :: "string list"
  created_at :: string
  last_msg :: "last_message option"
  unread_count :: nat

datatype role = Student | Recruiter | Admin

record user =
  user_ident :: string
  username :: string
  email :: string
  user_role :: role
  user_created_at :: "string option"

text \<open>What \<^verbatim>\<open>useAuth()\<close> hands to the provider.\<close>

record auth =
  auth_user :: "user option"
  auth_token :: "string option"

section \<open>The provider's state and its effects\<close>

text \<open>
  The seven \<^verbatim>\<open>useState\<close> cells of \<^verbatim>\<open>ChatProvider\<close>. A socket is a handle (the
  index of the socket among those the connection effect created).
  \<^verbatim>\<open>unreadCount\<close> only ever receives \<^verbatim>\<open>0\<close> and \<^verbatim>\<open>prev + 1\<close>, so it is a
  natural number.
\<close>

type_synonym socket_handle = nat

record chat_state =
  socket :: "socket_handle option"
  messages :: "message list"
  chatRooms :: "chat_room list"
  currentRoom :: "string option"
  isConnected :: bool
  typingUsers :: "string list"
  unreadCount :: nat

definition initial_state :: chat_state where
  "initial_state =
     \<lparr>socket = None, messages = [], chatRooms = [], currentRoom = None,
      isConnected = False, typingUsers = [], unreadCount = 0\<rparr>"

text \<open>The derived field of the context value: \<^verbatim>\<open>isTyping: typingUsers.length > 0\<close>.\<close>

definition isTyping :: "chat_state \<Rightarrow> bool" where
  "isTyping st = (length (typingUsers st) > 0)"

text \<open>
  Everything an operation does besides updating the state: the named events it emits on
  the socket, the HTTP requests it issues (the path after \<^verbatim>\<open>API_BASE_URL\<close>), the
  lines it writes to the console, the timers it sets.
\<close>

datatype signal =
    join_room string
  | leave_room string
  | send_message string string string
  | start_typing string
  | stop_typing string
  | mark_as_read string

datatype timer_callback = RemoveTyping string

datatype effect =
    Emit socket_handle signal
  | Fetch string
  | ConsoleLog string
  | ConsoleError string
  | SetTimeout nat timer_callback

fun is_console :: "effect \<Rightarrow> bool" where
  "is_console (ConsoleLog _) = True"
| "is_console (ConsoleError _) = True"
| "is_console _ = False"

text \<open>
  How an awaited \<^verbatim>\<open>fetch\<close> followed by \<^verbatim>\<open>response.json()\<close> can end: \<^verbatim>\<open>fetch\<close>
  rejects, the response is not OK (with its status), reading the body throws, or the
  body is read. The payload is the field the code reads from the body
  (\<^verbatim>\<open>data.chat_rooms\<close>, \<^verbatim>\<open>data.messages\<close>); \<open>None\<close> is a missing (falsy) field,
  which \<^verbatim>\<open>|| []\<close> turns into the empty list.
\<close>

datatype 'a fetch_outcome =
    FetchThrows
  | NotOk nat
  | JsonThrows
  | OkJson "'a option"

fun or_empty :: "'a list option \<Rightarrow> 'a list" where
  "or_empty None = []"
| "or_empty (Some xs) = xs"

section \<open>fetchChatRooms\<close>

text \<open>\<^verbatim>\<open>!token\<close> holds for \<^verbatim>\<open>null\<close> and for the empty string.\<close>

fun token_present :: "string option \<Rightarrow> bool" where
  "token_present None = False"
| "token_present (Some t) = (t \<noteq> [])"

text \<open>The part of \<^verbatim>\<open>fetchChatRooms\<close> before the \<^verbatim>\<open>await\<close>.\<close>

definition fetchChatRooms :: "auth \<Rightarrow> chat_state \<Rightarrow> effect list \<times> chat_state" where
  "fetchChatRooms a st =
     (case auth_user a of
        None \<Rightarrow> ([ConsoleLog ''ChatProvider: Cannot fetch chat rooms - user or token not available''], st)
      | Some u \<Rightarrow>
          if \<not> token_present (auth_token a)
          then ([ConsoleLog ''ChatProvider: Cannot fetch chat rooms - user or token not available''], st)
          else ([Fetch (if user_role u = Student then ''/student/chat-rooms''
                        else ''/recruiter/chat-rooms'')], st))"

text \<open>The part after the \<^verbatim>\<open>await\<close>, run on the state of the moment the request ends.\<close>

fun fetchChatRooms_resume ::
  "chat_room list fetch_outcome \<Rightarrow> chat_state \<Rightarrow> effect list \<times> chat_state" where
  "fetchChatRooms_resume (OkJson rooms) st = ([], st\<lparr>chatRooms := or_empty rooms\<rparr>)"
| "fetchChatRooms_resume (NotOk status) st = ([ConsoleError ''Failed to fetch chat rooms:''], st)"
| "fetchChatRooms_resume FetchThrows st = ([ConsoleError ''Error fetching chat rooms:''], st)"
| "fetchChatRooms_resume JsonThrows st = ([ConsoleError ''Error fetching chat rooms:''], st)"

section \<open>The operations of the context\<close>

text \<open>
  Each callback is rebuilt whenever \<^verbatim>\<open>socket\<close> or \<^verbatim>\<open>isConnected\<close> change, so the
  guard \<^verbatim>\<open>socket && isConnected\<close> reads the state's own cells.
\<close>

text \<open>\<^verbatim>\<open>joinRoom\<close> up to its \<^verbatim>\<open>await fetch\<close>.\<close>

definition joinRoom :: "string \<Rightarrow> chat_state \<Rightarrow> effect list \<times> chat_state" where
  "joinRoom roomId st =
     (case socket st of
        None \<Rightarrow> ([], st)
      | Some s \<Rightarrow>
          if isConnected st
          then ([Emit s (join_room roomId), Fetch (''/chat/history/'' @ roomId)],
                st\<lparr>currentRoom := Some roomId, messages := []\<rparr>)
          else ([], st))"

text \<open>
  \<^verbatim>\<open>joinRoom\<close> after the \<^verbatim>\<open>await\<close>: the continuation of the call for \<open>roomId\<close>, run
  on the state of the moment the history request ends.
\<close>

fun joinRoom_resume ::
  "string \<Rightarrow> message list fetch_outcome \<Rightarrow> chat_state \<Rightarrow> effect list \<times> chat_state" where
  "joinRoom_resume roomId (OkJson ms) st =
     ([ConsoleLog (''Loaded messages for room: '' @ roomId)], st\<lparr>messages := or_empty ms\<rparr>)"
| "joinRoom_resume roomId (NotOk status) st = ([ConsoleError ''Failed to fetch chat history:''], st)"
| "joinRoom_resume roomId FetchThrows st = ([ConsoleError ''Error fetching chat history:''], st)"
| "joinRoom_resume roomId JsonThrows st = ([ConsoleError ''Error fetching chat history:''], st)"

definition leaveRoom :: "string \<Rightarrow> chat_state \<Rightarrow> effect list \<times> chat_state" where
  "leaveRoom roomId st =
     (case socket st of
        None \<Rightarrow> ([], st)
      | Some s \<Rightarrow>
          if isConnected st
          then ([Emit s (leave_room roomId)], st\<lparr>currentRoom := None\<rparr>)
          else ([], st))"

definition sendMessage :: "string \<Rightarrow> string \<Rightarrow> string \<Rightarrow> chat_state \<Rightarrow> effect list \<times> chat_state" where
  "sendMessage roomId message receiverId st =
     (case socket st of
        None \<Rightarrow> ([], st)
      | Some s \<Rightarrow>
          if isConnected st
          then ([Emit s (send_message roomId message receiverId)], st)
          else ([], st))"

definition startTyping :: "string \<Rightarrow> chat_state \<Rightarrow> effect list \<times> chat_state" where
  "startTyping roomId st =
     (case socket st of
        None \<Rightarrow> ([], st)
      | Some s \<Rightarrow> if isConnected st then ([Emit s (start_typing roomId)], st) else ([], st))"

definition stopTyping :: "string \<Rightarrow> chat_state \<Rightarrow> effect list \<times> chat_state" where
  "stopTyping roomId st =
     (case socket st of
        None \<Rightarrow> ([], st)
      | Some s \<Rightarrow> if isConnected st then ([Emit s (stop_typing roomId)], st) else ([], st))"

definition markAsRead :: "string \<Rightarrow> chat_state \<Rightarrow> effect list \<times> chat_state" where
  "markAsRead roomId st =
     (case socket st of
        None \<Rightarrow> ([], st)
      | Some s \<Rightarrow>
          if isConnected st
          then ([Emit s (mark_as_read roomId)], st\<lparr>unreadCount := 0\<rparr>)
          else ([], st))"

definition clearMessages :: "chat_state \<Rightarrow> effect list \<times> chat_state" where
  "clearMessages st = ([], st\<lparr>messages := []\<rparr>)"

section \<open>The inbound handlers registered by setupEventHandlers\<close>

text \<open>
  The handlers are closures built inside the connection effect, whose dependencies are
  \<^verbatim>\<open>[user, token]\<close>. The \<^verbatim>\<open>currentRoom\<close> and \<^verbatim>\<open>user.username\<close> they read are the
  bindings of the render in which that effect ran; they are the parameters \<open>cr\<close> and
  \<open>me\<close> here. The updates of \<^verbatim>\<open>messages\<close>, \<^verbatim>\<open>typingUsers\<close> and \<^verbatim>\<open>unreadCount\<close> are
  functional (\<^verbatim>\<open>prev => ...\<close>) and so act on the state of the moment.
\<close>

definition new_message_handler :: "string option \<Rightarrow> message \<Rightarrow> chat_state \<Rightarrow> chat_state" where
  "new_message_handler cr m st =
     (let st1 = st\<lparr>messages := messages st @ [m]\<rparr>
      in if Some (room_id m) \<noteq> cr then st1\<lparr>unreadCount := unreadCount st1 + 1\<rparr> else st1)"

definition chat_history_handler ::
  "string option \<Rightarrow> string \<times> message list \<Rightarrow> chat_state \<Rightarrow> chat_state" where
  "chat_history_handler cr ev st =
     (case ev of (rid, roomMessages) \<Rightarrow>
        if Some rid = cr then st\<lparr>messages := roomMessages\<rparr> else st)"

definition user_typing_handler ::
  "string option \<Rightarrow> string \<Rightarrow> string \<times> string \<Rightarrow> chat_state \<Rightarrow> effect list \<times> chat_state" where
  "user_typing_handler cr me ev st =
     (case ev of (userId, roomId) \<Rightarrow>
        if Some roomId = cr \<and> userId \<noteq> me
        then ([SetTimeout 3000 (RemoveTyping userId)],
              st\<lparr>typingUsers := filter (\<lambda>i. i \<noteq> userId) (typingUsers st) @ [userId]\<rparr>)
        else ([], st))"

text \<open>The callback of the timer that \<^verbatim>\<open>user_typing\<close> sets.\<close>

fun run_timer :: "timer_callback \<Rightarrow> chat_state \<Rightarrow> chat_state" where
  "run_timer (RemoveTyping userId) st =
     st\<lparr>typingUsers := filter (\<lambda>i. i \<noteq> userId) (typingUsers st)\<rparr>"

definition user_stopped_typing_handler ::
  "string option \<Rightarrow> string \<times> string \<Rightarrow> chat_state \<Rightarrow> chat_state" where
  "user_stopped_typing_handler cr ev st =
     (case ev of (userId, roomId) \<Rightarrow>
        if Some roomId = cr
        then st\<lparr>typingUsers := filter (\<lambda>i. i \<noteq> userId) (typingUsers st)\<rparr>
        else st)"

section \<open>Runs of the provider\<close>

text \<open>
  Everything that can change the provider's state after it is mounted: a call of one of
  the context's operations, the end of a pending request, an inbound transport event
  handled by a listener (with the room and user name that listener's closure holds), a
  timer, and the two setters that the connection effect calls, \<^verbatim>\<open>setIsConnected\<close>
  and \<^verbatim>\<open>setSocket\<close>. The event loop runs them one at a time.
\<close>

datatype event =
    Call_joinRoom string
  | Resume_joinRoom string "message list fetch_outcome"
  | Call_leaveRoom string
  | Call_sendMessage string string string
  | Call_startTyping string
  | Call_stopTyping string
  | Call_markAsRead string
  | Call_clearMessages
  | Resume_fetchChatRooms "chat_room list fetch_outcome"
  | Set_isConnected bool
  | Set_socket socket_handle
  | On_new_message "string option" message
  | On_chat_history "string option" string "message list"
  | On_user_typing "string option" string string string
  | On_user_stopped_typing "string option" string string
  | Timer_fires timer_callback

fun apply_event :: "event \<Rightarrow> chat_state \<Rightarrow> chat_state" where
  "apply_event (Call_joinRoom r) st = snd (joinRoom r st)"
| "apply_event (Resume_joinRoom r out) st = snd (joinRoom_resume r out st)"
| "apply_event (Call_leaveRoom r) st = snd (leaveRoom r st)"
| "apply_event (Call_sendMessage r t rc) st = snd (sendMessage r t rc st)"
| "apply_event (Call_startTyping r) st = snd (startTyping r st)"
| "apply_event (Call_stopTyping r) st = snd (stopTyping r st)"
| "apply_event (Call_markAsRead r) st = snd (markAsRead r st)"
| "apply_event Call_clearMessages st = snd (clearMessages st)"
| "apply_event (Resume_fetchChatRooms out) st = snd (fetchChatRooms_resume out st)"
| "apply_event (Set_isConnected b) st = st\<lparr>isConnected := b\<rparr>"
| "apply_event (Set_socket h) st = st\<lparr>socket := Some h\<rparr>"
| "apply_event (On_new_message cr m) st = new_message_handler cr m st"
| "apply_event (On_chat_history cr r ms) st = chat_history_handler cr (r, ms) st"
| "apply_event (On_user_typing cr me u r) st = snd (user_typing_handler cr me (u, r) st)"
| "apply_event (On_user_stopped_typing cr u r) st = user_stopped_typing_handler cr (u, r) st"
| "apply_event (Timer_fires cb) st = run_timer cb st"

fun run :: "event list \<Rightarrow> chat_state \<Rightarrow> chat_state" where
  "run [] st = st"
| "run (e # es) st = run es (apply_event e st)"


section \<open>The connection effect: negotiation of the transport path\<close>

definition SOCKET_PATHS :: "string list" where
  "SOCKET_PATHS =
     [''/socket.io'', ''/ws/socket.io'', ''/socketio'', ''/ws/socketio'', ''/api/socket.io'']"

text \<open>\<^verbatim>\<open>SOCKET_PATHS[i]\<close>, which is \<^verbatim>\<open>undefined\<close> out of range.\<close>

definition path_at :: "nat \<Rightarrow> string option" where
  "path_at i = (if i < length SOCKET_PATHS then Some (SOCKET_PATHS ! i) else None)"

text \<open>
  The effect registers three different sets of listeners on the sockets it creates: those
  of \<^verbatim>\<open>attemptConnection\<close>, those registered on the socket created after the
  definition of \<^verbatim>\<open>setupEventHandlers\<close>, and those registered inside that socket's
  retry timer.
\<close>

datatype listener_set = AttemptListeners | OuterListeners | NestedListeners

datatype sock_status = Connecting | Connected | Failed | Dropped | Closed

record sock =
  sock_path :: string
  sock_listeners :: "listener_set option"
  opt_reconnection :: bool
  sock_status :: sock_status
  chat_listeners :: nat

datatype pending_timer = Timer_attemptConnection | Timer_nestedRetry

datatype console_line =
    Log_info string
  | Log_attempting string nat
  | Log_connected "string option"
  | Log_disconnected
  | Err_connection "string option"
  | Log_trying_next "string option"
  | Err_all_failed
  | Err_all_unsuccessful

fun is_connection_error :: "console_line \<Rightarrow> bool" where
  "is_connection_error (Err_connection _) = True"
| "is_connection_error _ = False"

text \<open>
  The variables of the effect's closure (\<^verbatim>\<open>currentSocket\<close>, \<^verbatim>\<open>pathIndex\<close>,
  \<^verbatim>\<open>finalSocket\<close>), the sockets created so far (a handle is an index), the timers not
  yet fired (all are set with the same delay, so they fire in the order they were set),
  the console, and the provider's state.
\<close>

record conn =
  sockets :: "sock list"
  currentSocket :: "socket_handle option"
  finalSocket :: "socket_handle option"
  pathIndex :: nat
  timers :: "pending_timer list"
  console :: "console_line list"
  chat :: chat_state

definition setIsConnected :: "bool \<Rightarrow> conn \<Rightarrow> conn" where
  "setIsConnected b c = c\<lparr>chat := (chat c)\<lparr>isConnected := b\<rparr>\<rparr>"

definition say :: "console_line list \<Rightarrow> conn \<Rightarrow> conn" where
  "say ls c = c\<lparr>console := console c @ ls\<rparr>"

definition update_sock :: "socket_handle \<Rightarrow> (sock \<Rightarrow> sock) \<Rightarrow> conn \<Rightarrow> conn" where
  "update_sock h f c =
     (if h < length (sockets c) then c\<lparr>sockets := (sockets c)[h := f (sockets c ! h)]\<rparr> else c)"

text \<open>\<^verbatim>\<open>tryConnection(pathIndex)\<close>: a new socket, reconnection off, nothing registered.\<close>

definition tryConnection :: "nat \<Rightarrow> conn \<Rightarrow> socket_handle \<times> conn" where
  "tryConnection i c =
     (let p = (case path_at i of Some q \<Rightarrow> q | None \<Rightarrow> ''/socket.io'');
          c1 = say [Log_attempting p (i + 1)] c
      in (length (sockets c1),
          c1\<lparr>sockets := sockets c1 @
                [\<lparr>sock_path = p, sock_listeners = None, opt_reconnection = False,
                  sock_status = Connecting, chat_listeners = 0\<rparr>]\<rparr>))"

definition register :: "listener_set \<Rightarrow> socket_handle \<Rightarrow> conn \<Rightarrow> conn" where
  "register ls h c = update_sock h (\<lambda>s. s\<lparr>sock_listeners := Some ls\<rparr>) c"

text \<open>\<^verbatim>\<open>currentSocket?.close()\<close>\<close>

definition close_current :: "conn \<Rightarrow> conn" where
  "close_current c =
     (case currentSocket c of
        None \<Rightarrow> c
      | Some h \<Rightarrow> update_sock h (\<lambda>s. s\<lparr>sock_status := Closed\<rparr>) c)"

text \<open>
  \<^verbatim>\<open>setupEventHandlers(connectedSocket)\<close>: the chat listeners are added to the socket,
  then \<^verbatim>\<open>setSocket\<close> and \<^verbatim>\<open>finalSocket\<close>.
\<close>

definition setupEventHandlers :: "socket_handle \<Rightarrow> conn \<Rightarrow> conn" where
  "setupEventHandlers h c =
     (let c1 = update_sock h (\<lambda>s. s\<lparr>chat_listeners := chat_listeners s + 1\<rparr>) c
      in c1\<lparr>chat := (chat c1)\<lparr>socket := Some h\<rparr>, finalSocket := Some h\<rparr>)"

definition attemptConnection :: "conn \<Rightarrow> conn" where
  "attemptConnection c =
     (if pathIndex c \<ge> length SOCKET_PATHS then say [Err_all_unsuccessful] c
      else case tryConnection (pathIndex c) c of
             (h, c1) \<Rightarrow> register AttemptListeners h (c1\<lparr>currentSocket := Some h\<rparr>))"

text \<open>The callback of the timer set by the outer \<^verbatim>\<open>connect_error\<close> listener.\<close>

definition nestedRetry :: "conn \<Rightarrow> conn" where
  "nestedRetry c =
     (case tryConnection (pathIndex c) c of
        (h, c1) \<Rightarrow> register NestedListeners h (c1\<lparr>currentSocket := Some h\<rparr>))"

text \<open>
  The body of the effect when \<^verbatim>\<open>user && token\<close> holds: \<^verbatim>\<open>attemptConnection()\<close>, then
  a second socket for the same \<^verbatim>\<open>pathIndex\<close> with the outer listeners.
\<close>

definition connection_effect :: "chat_state \<Rightarrow> conn" where
  "connection_effect st =
     (let c0 = \<lparr>sockets = [], currentSocket = None, finalSocket = None, pathIndex = 0,
                timers = [],
                console = [Log_info ''ChatProvider: Initializing socket connection for user:'',
                           Log_info ''ChatProvider: Connecting to:'',
                           Log_info ''ChatProvider: Environment:''],
                chat = st\<rparr>;
          c1 = attemptConnection c0
      in case tryConnection (pathIndex c1) c1 of
           (h, c2) \<Rightarrow> register OuterListeners h (c2\<lparr>currentSocket := Some h\<rparr>))"

text \<open>
  The listeners. None of them names the socket that fired: each reads the closure's
  \<^verbatim>\<open>currentSocket\<close> and \<^verbatim>\<open>pathIndex\<close> of the moment. \<^verbatim>\<open>currentSocket!\<close> on
  \<^verbatim>\<open>null\<close> throws, which ends the listener there.
\<close>

definition enable_reconnection :: "conn \<Rightarrow> conn option" where
  "enable_reconnection c =
     (case currentSocket c of
        None \<Rightarrow> None
      | Some h \<Rightarrow> Some (update_sock h (\<lambda>s. s\<lparr>opt_reconnection := True\<rparr>) c))"

fun on_connect :: "listener_set \<Rightarrow> conn \<Rightarrow> conn" where
  "on_connect AttemptListeners c =
     (let c1 = setIsConnected True
                 (say [Log_connected (path_at (pathIndex c)), Log_info ''Socket ID:'',
                       Log_info ''Transport:''] c)
      in case enable_reconnection c1 of None \<Rightarrow> c1 | Some c2 \<Rightarrow> c2)"
| "on_connect OuterListeners c =
     (let c1 = setIsConnected True
                 (say [Log_connected (path_at (pathIndex c)), Log_info ''Socket ID:'',
                       Log_info ''Transport:''] c)
      in case enable_reconnection c1 of
           None \<Rightarrow> c1
         | Some c2 \<Rightarrow> (case currentSocket c2 of None \<Rightarrow> c2 | Some h \<Rightarrow> setupEventHandlers h c2))"
| "on_connect NestedListeners c =
     (let c1 = setIsConnected True (say [Log_connected (path_at (pathIndex c))] c)
      in case currentSocket c1 of None \<Rightarrow> c1 | Some h \<Rightarrow> setupEventHandlers h c1)"

fun on_disconnect :: "listener_set \<Rightarrow> conn \<Rightarrow> conn" where
  "on_disconnect NestedListeners c = c"
| "on_disconnect _ c = setIsConnected False (say [Log_disconnected] c)"

fun on_connect_error :: "listener_set \<Rightarrow> conn \<Rightarrow> conn" where
  "on_connect_error AttemptListeners c =
     (let c1 = say [Err_connection (path_at (pathIndex c))] c;
          c2 = close_current (c1\<lparr>pathIndex := pathIndex c1 + 1\<rparr>)
      in if pathIndex c2 < length SOCKET_PATHS
         then (say [Log_trying_next (path_at (pathIndex c2))] c2)
                \<lparr>timers := timers c2 @ [Timer_attemptConnection]\<rparr>
         else setIsConnected False (say [Err_all_failed] c2))"
| "on_connect_error OuterListeners c =
     (let c1 = say [Err_connection (path_at (pathIndex c))] c;
          c2 = close_current (c1\<lparr>pathIndex := pathIndex c1 + 1\<rparr>)
      in if pathIndex c2 < length SOCKET_PATHS
         then (say [Log_trying_next (path_at (pathIndex c2))] c2)
                \<lparr>timers := timers c2 @ [Timer_nestedRetry]\<rparr>
         else setIsConnected False (say [Err_all_failed] c2))"
| "on_connect_error NestedListeners c =
     (let c1 = say [Err_connection (path_at (pathIndex c))] c;
          c2 = c1\<lparr>pathIndex := pathIndex c1 + 1\<rparr>
      in if pathIndex c2 \<ge> length SOCKET_PATHS
         then setIsConnected False (say [Err_all_failed] c2)
         else c2)"

fun run_pending :: "pending_timer \<Rightarrow> conn \<Rightarrow> conn" where
  "run_pending Timer_attemptConnection c = attemptConnection c"
| "run_pending Timer_nestedRetry c = nestedRetry c"

text \<open>
  What the transport and the clock can deliver while the first connection is negotiated.
  \<open>works p\<close> says whether the server answers on path \<open>p\<close>. A socket's handshake ends
  once: with \<^verbatim>\<open>connect\<close> if its path works, with \<^verbatim>\<open>connect_error\<close> if not, and with
  nothing if the socket was closed before. A connected socket can drop. An event that
  cannot happen in the state gives \<open>None\<close>.
\<close>

datatype conn_event =
    Ev_connect socket_handle
  | Ev_connect_error socket_handle
  | Ev_disconnect socket_handle
  | Ev_timer

text \<open>
  The socket \<open>h\<close> takes its new status and its listener for the event runs;
  \<open>deliver\<close> calls this for an existing socket only.
\<close>

definition fire ::
  "(listener_set \<Rightarrow> conn \<Rightarrow> conn) \<Rightarrow> socket_handle \<Rightarrow> sock_status \<Rightarrow> conn \<Rightarrow> conn" where
  "fire listener h status c =
     (let c1 = update_sock h (\<lambda>s. s\<lparr>sock_status := status\<rparr>) c
      in case sock_listeners (sockets c ! h) of None \<Rightarrow> c1 | Some ls \<Rightarrow> listener ls c1)"

fun deliver :: "(string \<Rightarrow> bool) \<Rightarrow> conn_event \<Rightarrow> conn \<Rightarrow> conn option" where
  "deliver works (Ev_connect h) c =
     (if h < length (sockets c) \<and> sock_status (sockets c ! h) = Connecting
         \<and> works (sock_path (sockets c ! h))
      then Some (fire on_connect h Connected c) else None)"
| "deliver works (Ev_connect_error h) c =
     (if h < length (sockets c) \<and> sock_status (sockets c ! h) = Connecting
         \<and> \<not> works (sock_path (sockets c ! h))
      then Some (fire on_connect_error h Failed c) else None)"
| "deliver works (Ev_disconnect h) c =
     (if h < length (sockets c) \<and> sock_status (sockets c ! h) = Connected
      then Some (fire on_disconnect h Dropped c) else None)"
| "deliver works Ev_timer c =
     (case timers c of
        [] \<Rightarrow> None
      | t # ts \<Rightarrow> Some (run_pending t (c\<lparr>timers := ts\<rparr>)))"

fun run_conn :: "(string \<Rightarrow> bool) \<Rightarrow> conn_event list \<Rightarrow> conn \<Rightarrow> conn option" where
  "run_conn works [] c = Some c"
| "run_conn works (e # es) c =
     (case deliver works e c of None \<Rightarrow> None | Some c1 \<Rightarrow> run_conn works es c1)"

text \<open>Nothing is left to happen in the negotiation: no timer, no handshake under way.\<close>

definition settled :: "conn \<Rightarrow> bool" where
  "settled c = (timers c = [] \<and> list_all (\<lambda>s. sock_status s \<noteq> Connecting) (sockets c))"

section \<open>Concrete sessions\<close>

text \<open>A message of room \<open>r\<close> sent by the peer.\<close>

definition msg :: "string \<Rightarrow> string \<Rightarrow> message" where
  "msg i r =
     \<lparr>msg_id = i, room_id = r, sender_id = ''userB'', receiver_id = ''userA'',
      content = ''hello'', timestamp = ''2024-01-01T00:00:00Z'', read = False\<rparr>"

text \<open>The session is connected on socket 1 and room r1 is joined.\<close>

definition joined_r1 :: chat_state where
  "joined_r1 = run [Set_isConnected True, Set_socket 1, Call_joinRoom ''r1''] initial_state"

text \<open>The same, after a message of room r1 has arrived.\<close>

definition joined_r1_one_message :: chat_state where
  "joined_r1_one_message = run [On_new_message (Some ''r1'') (msg ''m1'' ''r1'')] joined_r1"

text \<open>
  Room A is joined, then room B, and then the history request of room A ends with one
  message of room A.
\<close>

definition join_A_then_B :: "event list" where
  "join_A_then_B =
     [Set_isConnected True, Set_socket 1, Call_joinRoom ''A'', Call_joinRoom ''B'']"

definition late_history_of_A :: event where
  "late_history_of_A = Resume_joinRoom ''A'' (OkJson (Some [msg ''m1'' ''A'']))"

text \<open>
  A message of another room arrives on a connected session with no room joined, and
  then the connection drops.
\<close>

definition dropped_with_unread :: chat_state where
  "dropped_with_unread =
     run [Set_isConnected True, Set_socket 1, On_new_message None (msg ''m1'' ''r1''),
          Set_isConnected False] initial_state"


text \<open>
  The server answers on the second candidate path only. Of the two sockets that the
  effect opens on the first path, the second one reports its failure first; every
  later timer and failure follows in the order it becomes possible.
\<close>

definition only_second_path :: "string \<Rightarrow> bool" where
  "only_second_path p = (p = SOCKET_PATHS ! 1)"

definition second_socket_fails_first :: "conn_event list" where
  "second_socket_fails_first =
     [Ev_connect_error 1, Ev_connect_error 0, Ev_timer, Ev_timer,
      Ev_connect_error 2, Ev_connect_error 3, Ev_timer, Ev_connect_error 4]"

section \<open>Basic facts about the model\<close>

lemma joined_r1_eq:
  "joined_r1 = \<lparr>socket = Some 1, messages = [], chatRooms = [], currentRoom = Some ''r1'',
                 isConnected = True, typingUsers = [], unreadCount = 0\<rparr>"
  by (simp add: joined_r1_def initial_state_def joinRoom_def)

lemma joined_r1_one_message_eq:
  "joined_r1_one_message = joined_r1\<lparr>messages := [msg ''m1'' ''r1'']\<rparr>"
  by (simp add: joined_r1_one_message_def joined_r1_eq new_message_handler_def msg_def)

lemma dropped_with_unread_eq:
  "dropped_with_unread = \<lparr>socket = Some 1, messages = [msg ''m1'' ''r1''], chatRooms = [],
       currentRoom = None, isConnected = False, typingUsers = [], unreadCount = 1\<rparr>"
  by (simp add: dropped_with_unread_def initial_state_def new_message_handler_def msg_def)

lemma count_replace: "count_list (filter (\<lambda>i. i \<noteq> u) xs @ [u]) u = 1"
  by (induction xs) simp_all

lemma apply_event_distinct:
  assumes d: "distinct (typingUsers st)"
  shows "distinct (typingUsers (apply_event e st))"
proof (cases e)
  case (Resume_joinRoom r out)
  with d show ?thesis by (cases out) simp_all
next
  case (Resume_fetchChatRooms out)
  with d show ?thesis by (cases out) simp_all
next
  case (Timer_fires cb)
  with d show ?thesis by (cases cb) simp
qed (use d in \<open>auto simp: joinRoom_def leaveRoom_def sendMessage_def startTyping_def
       stopTyping_def markAsRead_def clearMessages_def new_message_handler_def
       chat_history_handler_def user_typing_handler_def user_stopped_typing_handler_def
       Let_def split: option.splits\<close>)

lemma run_distinct: "distinct (typingUsers st) \<Longrightarrow> distinct (typingUsers (run es st))"
  by (induction es arbitrary: st) (simp_all add: apply_event_distinct)





lemma new_message_appended: "messages (new_message_handler cr m st) = messages st @ [m]"
  by (simp add: new_message_handler_def Let_def)

lemma new_message_unread:
  "unreadCount (new_message_handler cr m st)
     = (if Some (room_id m) = cr then unreadCount st else unreadCount st + 1)"
  by (simp add: new_message_handler_def Let_def)

lemma chat_history_guarded:
  "messages (chat_history_handler cr (rid, ms) st) = (if Some rid = cr then ms else messages st)"
  by (simp add: chat_history_handler_def)

text \<open>Once the negotiation is settled, no handshake can end and no timer can fire.\<close>

lemma settled_final:
  assumes "settled c"
  shows "deliver works (Ev_connect h) c = None"
    and "deliver works (Ev_connect_error h) c = None"
    and "deliver works Ev_timer c = None"
  using assms by (auto simp: settled_def list_all_length)

text \<open>
  In the other order, where the first socket fails first and closes the second, the
  retries of \<open>attemptConnection\<close> reach the second path after one logged failure and
  \<open>isConnected\<close> becomes true; its \<open>connect\<close> listener does not call
  \<open>setupEventHandlers\<close>, so the provider's \<open>socket\<close> stays empty.
\<close>

lemma negotiation_first_socket_fails_first:
  "case run_conn only_second_path [Ev_connect_error 0, Ev_timer, Ev_connect 2]
          (connection_effect initial_state) of
     None \<Rightarrow> False
   | Some c \<Rightarrow>
       settled c \<and> isConnected (chat c) \<and> socket (chat c) = None
       \<and> map sock_path (sockets c) = [''/socket.io'', ''/socket.io'', ''/ws/socket.io'']
       \<and> map opt_reconnection (sockets c) = [False, False, True]
       \<and> length (filter is_connection_error (console c)) = 1"
  by code_simp

section \<open>Claims about the operations\<close>

text \<open>
  C1. The claim: when \<open>joinRoom A\<close> is followed by \<open>joinRoom B\<close> before the history of A
  arrives, the late history of A is not applied to the log. The code applies it: the
  continuation of \<open>joinRoom\<close> sets the log without looking at the current room (the
  \<open>chat_history\<close> listener does look). Here the history of room A arrives while room B
  is joined, and the log becomes the messages of room A.
\<close>

theorem joinRoom_late_history_applied:
  "currentRoom (run join_A_then_B initial_state) = Some ''B''
   \<and> messages (run join_A_then_B initial_state) = []
   \<and> currentRoom (run (join_A_then_B @ [late_history_of_A]) initial_state) = Some ''B''
   \<and> messages (run (join_A_then_B @ [late_history_of_A]) initial_state) = [msg ''m1'' ''A'']
   \<and> room_id (msg ''m1'' ''A'') = ''A''"
  by (simp add: join_A_then_B_def late_history_of_A_def initial_state_def joinRoom_def msg_def)

text \<open>
  C2, as claimed: \<open>sendMessage\<close> emits nothing when the text is empty or the room is not
  the joined one. It fails: on a connected session in room r1, the empty text is sent,
  and so is a text for room r2.
\<close>

theorem sendMessage_noop_counterexample:
  "isConnected joined_r1 \<and> currentRoom joined_r1 = Some ''r1''
   \<and> fst (sendMessage ''r1'' [] ''userB'' joined_r1) = [Emit 1 (send_message ''r1'' [] ''userB'')]
   \<and> fst (sendMessage ''r2'' ''hi'' ''userB'' joined_r1)
        = [Emit 1 (send_message ''r2'' ''hi'' ''userB'')]"
  by (simp add: joined_r1_eq sendMessage_def)

text \<open>
  C2, amended: \<open>sendMessage\<close> is a no-op (nothing emitted, state unchanged) whenever the
  session holds no socket or is not connected; on a connected session it emits exactly
  one send signal carrying the room, text and receiver it was given, whatever the text
  and the room are, and changes no state.
\<close>

theorem sendMessage_guard:
  "(socket st = None \<or> \<not> isConnected st \<longrightarrow> sendMessage roomId message receiverId st = ([], st))
   \<and> (socket st = Some s \<and> isConnected st \<longrightarrow>
        sendMessage roomId message receiverId st
          = ([Emit s (send_message roomId message receiverId)], st))"
  by (auto simp: sendMessage_def split: option.splits)

theorem sendMessage_guard_witness:
  "sendMessage ''r1'' ''hi'' ''userB'' initial_state = ([], initial_state)
   \<and> sendMessage ''r1'' ''hi'' ''userB'' joined_r1
        = ([Emit 1 (send_message ''r1'' ''hi'' ''userB'')], joined_r1)"
  using sendMessage_guard [of initial_state "''r1''" "''hi''" "''userB''" 0]
        sendMessage_guard [of joined_r1 "''r1''" "''hi''" "''userB''" 1]
  by (simp add: joined_r1_eq initial_state_def)

text \<open>
  C3. The claim: a message of another room than the joined one raises the unread count
  by one and is not appended to the log. The listener appends every message before it
  compares the rooms: on a session in room r1 whose listener sees room r1, a message of
  room r2 ends in the log.
\<close>

theorem new_message_other_room_appended:
  "currentRoom joined_r1 = Some ''r1'' \<and> messages joined_r1 = []
   \<and> room_id (msg ''m2'' ''r2'') = ''r2''
   \<and> messages (new_message_handler (Some ''r1'') (msg ''m2'' ''r2'') joined_r1)
        = [msg ''m2'' ''r2'']
   \<and> unreadCount (new_message_handler (Some ''r1'') (msg ''m2'' ''r2'') joined_r1) = 1"
  by (simp add: joined_r1_eq new_message_handler_def msg_def)

text \<open>
  C4. The claim: when only the k-th candidate path works, k-1 failures are logged and
  the session then connects on path k. With the server answering on the second path
  only, and the second of the two sockets opened on the first path failing first, the
  shared \<open>pathIndex\<close> is raised twice before any retry: the second path is never tried,
  five failures are logged, and the negotiation ends disconnected, with no socket
  handed to the provider.
\<close>

theorem negotiation_skips_working_path:
  "case run_conn only_second_path second_socket_fails_first (connection_effect initial_state) of
     None \<Rightarrow> False
   | Some c \<Rightarrow>
       settled c \<and> \<not> isConnected (chat c) \<and> socket (chat c) = None
       \<and> map sock_path (sockets c)
            = [''/socket.io'', ''/socket.io'', ''/socketio'', ''/socketio'', ''/api/socket.io'']
       \<and> \<not> list_ex only_second_path (map sock_path (sockets c))
       \<and> length (filter is_connection_error (console c)) = 5"
  by code_simp

text \<open>
  C5, as claimed: \<open>joinRoom\<close> of the room already joined emits nothing and keeps the
  log. It fails: on a connected session in room r1 holding one message, \<open>joinRoom r1\<close>
  emits the join signal, asks for the history and empties the log.
\<close>

theorem joinRoom_same_room_counterexample:
  "currentRoom joined_r1_one_message = Some ''r1''
   \<and> messages joined_r1_one_message = [msg ''m1'' ''r1'']
   \<and> fst (joinRoom ''r1'' joined_r1_one_message)
        = [Emit 1 (join_room ''r1''), Fetch ''/chat/history/r1'']
   \<and> messages (snd (joinRoom ''r1'' joined_r1_one_message)) = []"
  by (simp add: joined_r1_one_message_eq joined_r1_eq joinRoom_def)

text \<open>
  C5, amended: in a state whose current room is already \<open>roomId\<close>, \<open>joinRoom roomId\<close> is
  a no-op only when the session holds no socket or is not connected; on a connected
  session it emits the join signal again, issues the history request again and empties
  the log, the current room staying \<open>roomId\<close>.
\<close>

theorem joinRoom_same_room:
  assumes "currentRoom st = Some roomId"
  shows "(socket st = None \<or> \<not> isConnected st \<longrightarrow> joinRoom roomId st = ([], st))
   \<and> (socket st = Some s \<and> isConnected st \<longrightarrow>
        joinRoom roomId st
          = ([Emit s (join_room roomId), Fetch (''/chat/history/'' @ roomId)],
             st\<lparr>messages := []\<rparr>))"
  using assms by (auto simp: joinRoom_def split: option.splits)

theorem joinRoom_same_room_witness:
  "currentRoom joined_r1_one_message = Some ''r1''
   \<and> joinRoom ''r1'' joined_r1_one_message
       = ([Emit 1 (join_room ''r1''), Fetch ''/chat/history/r1''], joined_r1)
   \<and> currentRoom (joined_r1\<lparr>isConnected := False\<rparr>) = Some ''r1''
   \<and> joinRoom ''r1'' (joined_r1\<lparr>isConnected := False\<rparr>) = ([], joined_r1\<lparr>isConnected := False\<rparr>)"
proof -
  have a: "currentRoom joined_r1_one_message = Some ''r1''"
    by (simp add: joined_r1_one_message_eq joined_r1_eq)
  have b: "currentRoom (joined_r1\<lparr>isConnected := False\<rparr>) = Some ''r1''"
    by (simp add: joined_r1_eq)
  show ?thesis
    using a b joinRoom_same_room [OF a, of 1] joinRoom_same_room [OF b, of 1]
    by (simp add: joined_r1_one_message_eq joined_r1_eq)
qed

text \<open>
  C6, as claimed: \<open>leaveRoom roomId\<close> leaves the current room unchanged when \<open>roomId\<close>
  is another room. It fails: on a connected session in room r1, \<open>leaveRoom r2\<close> sets the
  current room to none.
\<close>

theorem leaveRoom_other_room_counterexample:
  "isConnected joined_r1 \<and> currentRoom joined_r1 = Some ''r1''
   \<and> currentRoom (snd (leaveRoom ''r2'' joined_r1)) = None"
  by (simp add: joined_r1_eq leaveRoom_def)

text \<open>
  C6, amended: for every connected state, \<open>leaveRoom roomId\<close> emits the leave signal for
  \<open>roomId\<close> and sets the current room to none, whether or not \<open>roomId\<close> is the room
  currently joined; nothing else changes.
\<close>

theorem leaveRoom_connected:
  assumes "socket st = Some s" and "isConnected st"
  shows "leaveRoom roomId st = ([Emit s (leave_room roomId)], st\<lparr>currentRoom := None\<rparr>)"
  using assms by (simp add: leaveRoom_def)

theorem leaveRoom_connected_witness:
  "socket joined_r1 = Some 1 \<and> isConnected joined_r1
   \<and> leaveRoom ''r1'' joined_r1 = ([Emit 1 (leave_room ''r1'')], joined_r1\<lparr>currentRoom := None\<rparr>)
   \<and> leaveRoom ''r2'' joined_r1 = ([Emit 1 (leave_room ''r2'')], joined_r1\<lparr>currentRoom := None\<rparr>)"
proof -
  have a: "socket joined_r1 = Some 1" and b: "isConnected joined_r1"
    by (simp_all add: joined_r1_eq)
  show ?thesis
    using a b leaveRoom_connected [OF a b, of "''r1''"] leaveRoom_connected [OF a b, of "''r2''"]
    by simp
qed

text \<open>
  C7, as claimed: \<open>markAsRead\<close> always resets the unread count to 0. It fails on a
  session that is not connected: after a message raised the count to 1 and the
  connection dropped, \<open>markAsRead\<close> leaves the count at 1.
\<close>

theorem markAsRead_always_counterexample:
  "\<not> isConnected dropped_with_unread \<and> unreadCount dropped_with_unread = 1
   \<and> unreadCount (snd (markAsRead ''r1'' dropped_with_unread)) = 1"
  by (simp add: dropped_with_unread_eq markAsRead_def)

text \<open>
  C7, amended: on a connected session (socket present and connected), \<open>markAsRead\<close>
  emits the mark-as-read signal and resets the unread count to 0 whatever it was,
  leaving the message log, the current room and the room list unchanged; on a session
  that is not connected it is a no-op, and the count keeps its value.
\<close>

theorem markAsRead_guard:
  "(socket st = Some s \<and> isConnected st \<longrightarrow>
      fst (markAsRead roomId st) = [Emit s (mark_as_read roomId)]
      \<and> unreadCount (snd (markAsRead roomId st)) = 0
      \<and> messages (snd (markAsRead roomId st)) = messages st
      \<and> currentRoom (snd (markAsRead roomId st)) = currentRoom st
      \<and> chatRooms (snd (markAsRead roomId st)) = chatRooms st)
   \<and> (socket st = None \<or> \<not> isConnected st \<longrightarrow> markAsRead roomId st = ([], st))"
  by (auto simp: markAsRead_def split: option.splits)

theorem markAsRead_guard_witness:
  "unreadCount (dropped_with_unread\<lparr>isConnected := True\<rparr>) = 1
   \<and> unreadCount (snd (markAsRead ''r1'' (dropped_with_unread\<lparr>isConnected := True\<rparr>))) = 0
   \<and> messages (snd (markAsRead ''r1'' (dropped_with_unread\<lparr>isConnected := True\<rparr>)))
       = [msg ''m1'' ''r1'']
   \<and> markAsRead ''r1'' dropped_with_unread = ([], dropped_with_unread)"
  using markAsRead_guard [of "dropped_with_unread\<lparr>isConnected := True\<rparr>" 1 "''r1''"]
        markAsRead_guard [of dropped_with_unread 1 "''r1''"]
  by (simp add: dropped_with_unread_eq)

text \<open>
  C8: when the request of \<open>fetchChatRooms\<close> fails (the fetch rejects, the response is
  not OK, or its body cannot be read), the failure is written to the console and
  nothing else happens: the whole state, and so the room list, is as before. When it
  succeeds, the fetched list becomes the room list, replacing the previous one, and
  nothing else changes. Issuing the request changes no state either.
\<close>

theorem fetchChatRooms_fail_soft:
  "(out = FetchThrows \<or> out = NotOk status \<or> out = JsonThrows \<longrightarrow>
      snd (fetchChatRooms_resume out st) = st
      \<and> fst (fetchChatRooms_resume out st) \<noteq> []
      \<and> list_all is_console (fst (fetchChatRooms_resume out st)))
   \<and> fetchChatRooms_resume (OkJson (Some rooms)) st = ([], st\<lparr>chatRooms := rooms\<rparr>)
   \<and> snd (fetchChatRooms a st) = st"
  by (auto simp: fetchChatRooms_def split: option.splits)

theorem fetchChatRooms_fail_soft_witness:
  "snd (fetchChatRooms_resume FetchThrows joined_r1) = joined_r1
   \<and> snd (fetchChatRooms_resume (NotOk 500) joined_r1) = joined_r1
   \<and> list_all is_console (fst (fetchChatRooms_resume (NotOk 500) joined_r1))
   \<and> chatRooms (snd (fetchChatRooms_resume (OkJson (Some [])) joined_r1)) = []"
  using fetchChatRooms_fail_soft [of FetchThrows 500 joined_r1 "[]"]
        fetchChatRooms_fail_soft [of "NotOk 500" 500 joined_r1 "[]"]
  by simp




text \<open>
  C10: in every state reached from the initial one by any sequence of operation calls,
  request results, inbound events and timers, the typing set holds no user twice, and
  \<open>isTyping\<close> is true exactly when the typing set is not empty. A typing-started event
  that is taken up leaves exactly one entry for its user, also when the user was
  already in the set.
\<close>

theorem typingUsers_distinct:
  "distinct (typingUsers (run es initial_state))
   \<and> (isTyping (run es initial_state) \<longleftrightarrow> typingUsers (run es initial_state) \<noteq> [])
   \<and> (Some roomId = cr \<and> userId \<noteq> me \<longrightarrow>
        count_list (typingUsers (snd (user_typing_handler cr me (userId, roomId)
                                        (run es initial_state)))) userId = 1)"
proof -
  have "distinct (typingUsers initial_state)"
    by (simp add: initial_state_def)
  then have "distinct (typingUsers (run es initial_state))"
    by (rule run_distinct)
  then show ?thesis
    by (simp add: isTyping_def user_typing_handler_def count_replace)
qed

theorem typingUsers_distinct_witness:
  "typingUsers (run [Set_isConnected True, Set_socket 1, Call_joinRoom ''r1'',
                     On_user_typing (Some ''r1'') ''userA'' ''userB'' ''r1'',
                     On_user_typing (Some ''r1'') ''userA'' ''userB'' ''r1''] initial_state)
     = [''userB'']
   \<and> distinct (typingUsers (run [Set_isConnected True, Set_socket 1, Call_joinRoom ''r1'',
                     On_user_typing (Some ''r1'') ''userA'' ''userB'' ''r1'',
                     On_user_typing (Some ''r1'') ''userA'' ''userB'' ''r1''] initial_state))
   \<and> isTyping (run [Set_isConnected True, Set_socket 1, Call_joinRoom ''r1'',
                     On_user_typing (Some ''r1'') ''userA'' ''userB'' ''r1'',
                     On_user_typing (Some ''r1'') ''userA'' ''userB'' ''r1''] initial_state)
   \<and> count_list (typingUsers (snd (user_typing_handler (Some ''r1'') ''userA'' (''userB'', ''r1'')
        (run [Set_isConnected True, Set_socket 1, Call_joinRoom ''r1'',
              On_user_typing (Some ''r1'') ''userA'' ''userB'' ''r1''] initial_state)))) ''userB'' = 1"
  using typingUsers_distinct [of "[Set_isConnected True, Set_socket 1, Call_joinRoom ''r1'',
                     On_user_typing (Some ''r1'') ''userA'' ''userB'' ''r1'',
                     On_user_typing (Some ''r1'') ''userA'' ''userB'' ''r1'']" "''r1''" "Some ''r1''" "''userB''" "''userA''"]
        typingUsers_distinct [of "[Set_isConnected True, Set_socket 1, Call_joinRoom ''r1'',
                     On_user_typing (Some ''r1'') ''userA'' ''userB'' ''r1'']" "''r1''" "Some ''r1''" "''userB''" "''userA''"]
  by (simp add: initial_state_def joinRoom_def user_typing_handler_def)

end
